theory Spec2Isabelle
  imports Complex_Main "HOL-Library.Product_Lexorder"
begin

section \<open>Python values\<close>

text \<open>
  Exceptions are values of type \<open>error\<close>; a call that may raise returns \<open>error + 'a\<close>
  with \<open>Inl\<close> the exception. \<open>NoDataError\<close> is the exception named by the
  specification; no function below raises it.
  A Python \<open>float\<close> is idealised as a real number (rounding is not modelled);
  a \<open>datetime\<close> is a point on the integer time line, and is always truthy.
\<close>

datatype error =
    TypeError | ValueError | IndexError | AttributeError | ValidationError | DataError
  | ParserError | ClientResponseError | ClientConnectionError | NoDataError

datatype pyval = PyNone | PyBool bool

text \<open>Sequencing of calls that may raise: the first exception is the result.\<close>

definition and_then :: "error + 'a \<Rightarrow> ('a \<Rightarrow> error + 'b) \<Rightarrow> error + 'b" where
  "and_then m f = (case m of Inl e \<Rightarrow> Inl e | Inr x \<Rightarrow> f x)"

type_synonym datetime = int

type_synonym sky_layer = "string \<times> real option"

section \<open>core/domain/meteo.py: the report models\<close>

record MetarReportIn =
  icao_code :: "string option"
  date_time :: "datetime option"
  wind_speed :: "real option"
  wind_direction :: "real option"
  wind_var_from :: "real option"
  wind_var_to :: "real option"
  wind_gust :: "real option"
  rvr :: "real option"
  rvr_direction :: "real option"
  dew_point :: "real option"
  sky :: "sky_layer list option"
  temp :: "real option"
  qnh :: "real option"

text \<open>\<open>class MetarReport(MetarReportIn)\<close> adds the field \<open>id: int\<close>.\<close>

record MetarReport = MetarReportIn +
  report_id :: int

section \<open>db.py: the metars table\<close>

text \<open>
  The \<open>sky\<close> column is a nullable \<open>PickleType\<close>: its bind processor pickles a
  value that is not \<open>None\<close> and stores \<open>None\<close> as NULL. \<open>pickle.loads\<close> inverts
  \<open>pickle.dumps\<close> and raises \<open>TypeError\<close> on \<open>None\<close>.
\<close>

datatype pickled = Pickled "sky_layer list"

definition pickle_dumps :: "sky_layer list \<Rightarrow> pickled" where
  "pickle_dumps layers = Pickled layers"

fun pickle_loads :: "pickled option \<Rightarrow> error + sky_layer list" where
  "pickle_loads None = Inl TypeError"
| "pickle_loads (Some (Pickled layers)) = Inr layers"

record metar_row =
  id_col :: int
  icao_code_col :: "string option"
  date_time_col :: "datetime option"
  wind_speed_col :: "real option"
  wind_direction_col :: "real option"
  wind_var_from_col :: "real option"
  wind_var_to_col :: "real option"
  wind_gust_col :: "real option"
  rvr_col :: "real option"
  rvr_direction_col :: "real option"
  dew_point_col :: "real option"
  sky_col :: "pickled option"
  temp_col :: "real option"
  qnh_col :: "real option"

text \<open>
  The database holds the rows of \<open>metars\<close> in insertion order and the sequence that
  feeds the integer primary key.
\<close>

record database =
  metars :: "metar_row list"
  metars_id_seq :: int

definition empty_database :: database where
  "empty_database = \<lparr>metars = [], metars_id_seq = 1\<rparr>"

text \<open>\<open>metar_table.insert().values(**report.model_dump())\<close> for the key \<open>i\<close>.\<close>

definition insert_values :: "int \<Rightarrow> MetarReportIn \<Rightarrow> metar_row" where
  "insert_values i r =
     \<lparr>id_col = i,
      icao_code_col = icao_code r,
      date_time_col = date_time r,
      wind_speed_col = wind_speed r,
      wind_direction_col = wind_direction r,
      wind_var_from_col = wind_var_from r,
      wind_var_to_col = wind_var_to r,
      wind_gust_col = wind_gust r,
      rvr_col = rvr r,
      rvr_direction_col = rvr_direction r,
      dew_point_col = dew_point r,
      sky_col = map_option pickle_dumps (sky r),
      temp_col = temp r,
      qnh_col = qnh r\<rparr>"

text \<open>
  The column \<open>id\<close> is a 32-bit \<open>INTEGER\<close>. A statement whose id argument lies
  outside that range is refused by the driver with \<open>DataError\<close> before it reaches
  the table, and an insert raises \<open>DataError\<close> once the sequence has left the
  range.
\<close>

definition int32 :: "int \<Rightarrow> bool" where
  "int32 i = (- 2147483648 \<le> i \<and> i \<le> 2147483647)"

text \<open>\<open>database.execute\<close> of an insert: the new row takes the next key, which is returned.\<close>

definition execute_insert :: "MetarReportIn \<Rightarrow> database \<Rightarrow> error + (int \<times> database)" where
  "execute_insert r db =
     (let i = metars_id_seq db
      in if int32 i
         then Inr (i, \<lparr>metars = metars db @ [insert_values i r], metars_id_seq = i + 1\<rparr>)
         else Inl DataError)"

text \<open>\<open>database.execute\<close> of \<open>delete().where(id == report_id)\<close>.\<close>

definition execute_delete :: "int \<Rightarrow> database \<Rightarrow> error + database" where
  "execute_delete rid db =
     (if int32 rid
      then Inr (db\<lparr>metars := filter (\<lambda>row. id_col row \<noteq> rid) (metars db)\<rparr>)
      else Inl DataError)"

text \<open>\<open>database.fetch_one\<close> of \<open>select().where(id == report_id).order_by(id)\<close>.\<close>

definition fetch_one_by_id :: "int \<Rightarrow> database \<Rightarrow> error + metar_row option" where
  "fetch_one_by_id rid db =
     (if int32 rid then Inr (find (\<lambda>row. id_col row = rid) (metars db)) else Inl DataError)"

text \<open>
  The conditions of \<open>get_by_airport\<close>, with SQL's treatment of NULL: a comparison
  with a NULL column is not true, so the row is left out. A bound that is \<open>None\<close>
  adds no condition.
\<close>

definition query_conditions :: "string \<Rightarrow> datetime option \<Rightarrow> datetime option \<Rightarrow> metar_row \<Rightarrow> bool" where
  "query_conditions code start_date end_date row =
     (icao_code_col row = Some code
      \<and> (case start_date of None \<Rightarrow> True
          | Some s \<Rightarrow> (case date_time_col row of None \<Rightarrow> False | Some t \<Rightarrow> s \<le> t))
      \<and> (case end_date of None \<Rightarrow> True
          | Some e \<Rightarrow> (case date_time_col row of None \<Rightarrow> False | Some t \<Rightarrow> t \<le> e)))"

text \<open>
  \<open>order_by(date_time.asc())\<close>: ascending, NULL after every value. Rows with equal
  keys stay in insertion order.
\<close>

definition date_time_key :: "datetime option \<Rightarrow> bool \<times> datetime" where
  "date_time_key d = (case d of None \<Rightarrow> (True, 0) | Some t \<Rightarrow> (False, t))"

definition fetch_all_by_airport :: "string \<Rightarrow> datetime option \<Rightarrow> datetime option \<Rightarrow> database \<Rightarrow> metar_row list" where
  "fetch_all_by_airport code start_date end_date db =
     sort_key (\<lambda>row. date_time_key (date_time_col row))
       (filter (query_conditions code start_date end_date) (metars db))"

section \<open>infrastructure/repositories/meteo.py: MeteoRepository\<close>

text \<open>
  \<open>_map_report\<close> returns \<open>None\<close> for no record, and otherwise the record as a dict
  with \<open>sky\<close> unpickled; \<open>MetarReport(**dict)\<close> then builds the model, whose fields
  accept every column value.
\<close>

definition report_dict :: "metar_row \<Rightarrow> sky_layer list \<Rightarrow> MetarReport" where
  "report_dict row layers =
     \<lparr>icao_code = icao_code_col row,
      date_time = date_time_col row,
      wind_speed = wind_speed_col row,
      wind_direction = wind_direction_col row,
      wind_var_from = wind_var_from_col row,
      wind_var_to = wind_var_to_col row,
      wind_gust = wind_gust_col row,
      rvr = rvr_col row,
      rvr_direction = rvr_direction_col row,
      dew_point = dew_point_col row,
      sky = Some layers,
      temp = temp_col row,
      qnh = qnh_col row,
      report_id = id_col row\<rparr>"

definition map_report :: "metar_row option \<Rightarrow> error + MetarReport option" where
  "map_report report =
     (case report of
        None \<Rightarrow> Inr None
      | Some row \<Rightarrow>
          (case pickle_loads (sky_col row) of
             Inl e \<Rightarrow> Inl e
           | Inr layers \<Rightarrow> Inr (Some (report_dict row layers))))"

text \<open>The list comprehension over the fetched records: the first exception ends it.\<close>

fun map_reports :: "metar_row list \<Rightarrow> error + MetarReport list" where
  "map_reports [] = Inr []"
| "map_reports (row # rows) =
     (case map_report (Some row) of
        Inl e \<Rightarrow> Inl e
      | Inr None \<Rightarrow> Inl TypeError
      | Inr (Some r) \<Rightarrow>
          (case map_reports rows of Inl e \<Rightarrow> Inl e | Inr rs \<Rightarrow> Inr (r # rs)))"

definition get_by_airport :: "string \<Rightarrow> datetime option \<Rightarrow> datetime option \<Rightarrow> database \<Rightarrow> error + MetarReport list" where
  "get_by_airport code start_date end_date db =
     map_reports (fetch_all_by_airport code start_date end_date db)"

definition get_by_id :: "int \<Rightarrow> database \<Rightarrow> error + MetarReport option" where
  "get_by_id rid db = and_then (fetch_one_by_id rid db) map_report"

definition add_report :: "MetarReportIn \<Rightarrow> database \<Rightarrow> (error + MetarReport option) \<times> database" where
  "add_report report db =
     (case execute_insert report db of
        Inl e \<Rightarrow> (Inl e, db)
      | Inr (new_id, db') \<Rightarrow> (get_by_id new_id db', db'))"

text \<open>
  \<open>remove_report\<close> tests \<open>self.get_by_id(report_id)\<close> without awaiting it: the value
  tested is the coroutine object, which is truthy, and the body of \<open>get_by_id\<close> does
  not run. The function has no \<open>return\<close> statement; it ends by returning \<open>None\<close>
  unless the delete statement raises.
\<close>

datatype 'a coroutine = Coroutine 'a

fun truthy :: "'a coroutine \<Rightarrow> bool" where
  "truthy (Coroutine c) = True"

definition remove_report :: "int \<Rightarrow> database \<Rightarrow> (error + pyval) \<times> database" where
  "remove_report rid db =
     (if truthy (Coroutine (get_by_id rid))
      then (case execute_delete rid db of
              Inl e \<Rightarrow> (Inl e, db)
            | Inr db' \<Rightarrow> (Inr PyNone, db'))
      else (Inr PyNone, db))"

section \<open>core/domain/meteo.py: from_text_report\<close>

text \<open>
  \<open>Metar.Metar\<close> belongs to the third-party package \<open>metar\<close>. The object it builds
  is modelled by the attributes that \<open>from_text_report\<close> reads: a measurement is
  \<open>None\<close> or an object whose \<open>value()\<close> is a float (such an object is truthy);
  \<open>sky\<close> is a list of triples (cover, height, cloud) with the height possibly
  \<open>None\<close>. The decoder itself is a parameter \<open>metar\<close>, which raises or returns
  the object.
\<close>

record Metar_obs =
  station_id :: "string option"
  time :: "datetime option"
  wind_speed_obs :: "real option"
  wind_dir :: "real option"
  wind_dir_from :: "real option"
  wind_dir_to :: "real option"
  wind_gust_obs :: "real option"
  vis :: "real option"
  vis_dir :: "real option"
  dewpt :: "real option"
  sky_obs :: "(string \<times> real option \<times> string option) list"
  temp_obs :: "real option"
  press :: "real option"

type_synonym decoder = "string \<Rightarrow> error + Metar_obs"

definition from_text_report :: "decoder \<Rightarrow> string \<Rightarrow> error + MetarReportIn" where
  "from_text_report metar report =
     (case metar report of
        Inl e \<Rightarrow> Inl e
      | Inr obs \<Rightarrow>
          Inr \<lparr>icao_code = station_id obs,
               date_time = time obs,
               wind_speed = wind_speed_obs obs,
               wind_direction = wind_dir obs,
               wind_var_from = wind_dir_from obs,
               wind_var_to = wind_dir_to obs,
               wind_gust = wind_gust_obs obs,
               rvr = vis obs,
               rvr_direction = vis_dir obs,
               dew_point = dewpt obs,
               sky = Some (map (\<lambda>x. (fst x, fst (snd x))) (sky_obs obs)),
               temp = temp_obs obs,
               qnh = press obs\<rparr>)"

definition add_text_report :: "decoder \<Rightarrow> string \<Rightarrow> database \<Rightarrow> (error + MetarReport option) \<times> database" where
  "add_text_report metar text_report db =
     (case from_text_report metar text_report of
        Inl e \<Rightarrow> (Inl e, db)
      | Inr report_object \<Rightarrow>
          (case execute_insert report_object db of
             Inl e \<Rightarrow> (Inl e, db)
           | Inr (new_report_id, db') \<Rightarrow> (get_by_id new_report_id db', db')))"

section \<open>api/routers/meteo.py: create_report\<close>

text \<open>
  \<open>new_report.model_dump()\<close> raises \<open>AttributeError\<close> on \<open>None\<close>. An exception
  that leaves the handler is answered with status 500, a result with status 201.
\<close>

definition create_report :: "decoder \<Rightarrow> string \<Rightarrow> database \<Rightarrow> (error + MetarReport) \<times> database" where
  "create_report metar report db =
     (case add_text_report metar report db of
        (Inl e, db') \<Rightarrow> (Inl e, db')
      | (Inr None, db') \<Rightarrow> (Inl AttributeError, db')
      | (Inr (Some new_report), db') \<Rightarrow> (Inr new_report, db'))"

section \<open>infrastructure/services/meteo.py: get_stats\<close>

text \<open>
  \<open>np.array\<close> of a list of floats is a float array; with a \<open>None\<close> among the
  elements it is an array of objects. On a float array \<open>mean\<close> of no elements is
  \<open>nan\<close> (with a warning) and \<open>min\<close>, \<open>max\<close> of no elements raise \<open>ValueError\<close>.
  On an object array the reductions add and compare the elements as Python objects,
  which raises \<open>TypeError\<close> as soon as \<open>None\<close> takes part; the minimum or maximum
  of a single element is that element. A reduction returns \<open>None\<close> only in that
  last case.
\<close>

datatype pyfloat = Float real | NaN

datatype ndarray = FloatArray "real list" | ObjectArray "real option list"

definition np_array :: "real option list \<Rightarrow> ndarray" where
  "np_array xs = (case those xs of Some vs \<Rightarrow> FloatArray vs | None \<Rightarrow> ObjectArray xs)"

fun float_mean :: "real list \<Rightarrow> error + pyfloat option" where
  "float_mean [] = Inr (Some NaN)"
| "float_mean vs = Inr (Some (Float (sum_list vs / real (length vs))))"

fun float_min :: "real list \<Rightarrow> error + pyfloat option" where
  "float_min [] = Inl ValueError"
| "float_min (v # vs) = Inr (Some (Float (fold min vs v)))"

fun float_max :: "real list \<Rightarrow> error + pyfloat option" where
  "float_max [] = Inl ValueError"
| "float_max (v # vs) = Inr (Some (Float (fold max vs v)))"

fun mean :: "ndarray \<Rightarrow> error + pyfloat option" where
  "mean (FloatArray vs) = float_mean vs"
| "mean (ObjectArray xs) =
     (case those xs of None \<Rightarrow> Inl TypeError | Some vs \<Rightarrow> float_mean vs)"

fun amin :: "ndarray \<Rightarrow> error + pyfloat option" where
  "amin (FloatArray vs) = float_min vs"
| "amin (ObjectArray [x]) = Inr (map_option Float x)"
| "amin (ObjectArray xs) =
     (case those xs of None \<Rightarrow> Inl TypeError | Some vs \<Rightarrow> float_min vs)"

fun amax :: "ndarray \<Rightarrow> error + pyfloat option" where
  "amax (FloatArray vs) = float_max vs"
| "amax (ObjectArray [x]) = Inr (map_option Float x)"
| "amax (ObjectArray xs) =
     (case those xs of None \<Rightarrow> Inl TypeError | Some vs \<Rightarrow> float_max vs)"

text \<open>
  The three keyword arguments of one metric, in the order they are written:
  \<open>arr.mean()\<close>, \<open>arr.min()\<close>, \<open>arr.max()\<close>.
\<close>

definition avg_min_max :: "ndarray \<Rightarrow> error + (pyfloat option \<times> pyfloat option \<times> pyfloat option)" where
  "avg_min_max arr =
     and_then (mean arr) (\<lambda>a.
     and_then (amin arr) (\<lambda>lo.
     and_then (amax arr) (\<lambda>hi. Inr (a, lo, hi))))"

section \<open>infrastructure/dto/meteostats.py: MeteoStatsDTO\<close>

record MeteoStatsDTO =
  start_time :: datetime
  end_time :: datetime
  icao_code_stats :: string
  avg_temperature :: pyfloat
  min_temperature :: pyfloat
  max_temperature :: pyfloat
  avg_wind_speed :: pyfloat
  min_wind_speed :: pyfloat
  max_wind_speed :: pyfloat
  avg_rvr :: pyfloat
  min_rvr :: pyfloat
  max_rvr :: pyfloat
  avg_dew_point :: pyfloat
  min_dew_point :: pyfloat
  max_dew_point :: pyfloat
  avg_qhn :: pyfloat
  min_qhn :: pyfloat
  max_qhn :: pyfloat

text \<open>
  The model declares \<open>start_time: datetime\<close>, \<open>end_time: datetime\<close> and every
  statistic as \<open>float\<close>: the constructor raises \<open>ValidationError\<close> when one of them
  is \<open>None\<close> (whichever fields fail, the exception is the same).
\<close>

type_synonym triple = "pyfloat option \<times> pyfloat option \<times> pyfloat option"

definition validate_datetime :: "datetime option \<Rightarrow> error + datetime" where
  "validate_datetime v = (case v of None \<Rightarrow> Inl ValidationError | Some d \<Rightarrow> Inr d)"

definition validate_float :: "pyfloat option \<Rightarrow> error + pyfloat" where
  "validate_float v = (case v of None \<Rightarrow> Inl ValidationError | Some x \<Rightarrow> Inr x)"

definition validate_triple :: "triple \<Rightarrow> error + (pyfloat \<times> pyfloat \<times> pyfloat)" where
  "validate_triple m =
     and_then (validate_float (fst m)) (\<lambda>a.
     and_then (validate_float (fst (snd m))) (\<lambda>lo.
     and_then (validate_float (snd (snd m))) (\<lambda>hi. Inr (a, lo, hi))))"

definition MeteoStatsDTO_init ::
  "datetime option \<Rightarrow> datetime option \<Rightarrow> string \<Rightarrow> triple \<Rightarrow> triple \<Rightarrow> triple \<Rightarrow> triple \<Rightarrow> triple
     \<Rightarrow> error + MeteoStatsDTO" where
  "MeteoStatsDTO_init start_date end_date code t w r d q =
     and_then (validate_datetime start_date) (\<lambda>s.
     and_then (validate_datetime end_date) (\<lambda>e.
     and_then (validate_triple t) (\<lambda>t'.
     and_then (validate_triple w) (\<lambda>w'.
     and_then (validate_triple r) (\<lambda>r'.
     and_then (validate_triple d) (\<lambda>d'.
     and_then (validate_triple q) (\<lambda>q'.
       Inr \<lparr>start_time = s, end_time = e, icao_code_stats = code,
            avg_temperature = fst t', min_temperature = fst (snd t'),
            max_temperature = snd (snd t'),
            avg_wind_speed = fst w', min_wind_speed = fst (snd w'),
            max_wind_speed = snd (snd w'),
            avg_rvr = fst r', min_rvr = fst (snd r'), max_rvr = snd (snd r'),
            avg_dew_point = fst d', min_dew_point = fst (snd d'),
            max_dew_point = snd (snd d'),
            avg_qhn = fst q', min_qhn = fst (snd q'), max_qhn = snd (snd q')\<rparr>)))))))"

definition get_stats :: "string \<Rightarrow> datetime option \<Rightarrow> datetime option \<Rightarrow> database \<Rightarrow> error + MeteoStatsDTO" where
  "get_stats code start_date end_date db =
     and_then (get_by_airport code start_date end_date db) (\<lambda>reports.
     and_then (avg_min_max (np_array (map temp reports))) (\<lambda>t.
     and_then (avg_min_max (np_array (map wind_speed reports))) (\<lambda>w.
     and_then (avg_min_max (np_array (map rvr reports))) (\<lambda>r.
     and_then (avg_min_max (np_array (map dew_point reports))) (\<lambda>d.
     and_then (avg_min_max (np_array (map qnh reports))) (\<lambda>q.
       MeteoStatsDTO_init start_date end_date code t w r d q))))))"

section \<open>metarscanner/task.py: the collector\<close>

text \<open>
  \<open>session.get(url)\<close> either raises (a transport failure such as a refused
  connection or a timeout, which is no \<open>ClientResponseError\<close>) or gives a response
  with a status and a text. \<open>raise_for_status\<close> raises \<open>ClientResponseError\<close> for
  a status of 400 or more.
\<close>

record response =
  status :: nat
  text_body :: string

type_synonym session = "string \<Rightarrow> error + response"

definition raise_for_status :: "response \<Rightarrow> error + response" where
  "raise_for_status r = (if 400 \<le> status r then Inl ClientResponseError else Inr r)"

text \<open>\<open>str.upper\<close>, on the letters of an ICAO code (ASCII).\<close>

definition upper_char :: "char \<Rightarrow> char" where
  "upper_char c =
     (case map_of (zip ''abcdefghijklmnopqrstuvwxyz'' ''ABCDEFGHIJKLMNOPQRSTUVWXYZ'') c of
        None \<Rightarrow> c
      | Some u \<Rightarrow> u)"

definition upper :: "string \<Rightarrow> string" where
  "upper s = map upper_char s"

definition METAR_ENDPOINT :: "string \<Rightarrow> string" where
  "METAR_ENDPOINT code =
     ''https://tgftp.nws.noaa.gov/data/observations/metar/stations/'' @ code @ ''.TXT''"

text \<open>\<open>text.split("\n")\<close>: the pieces between line feeds, at least one piece.\<close>

fun split_newline :: "string \<Rightarrow> string list" where
  "split_newline [] = [[]]"
| "split_newline (c # cs) =
     (if c = CHR 0x0A then [] # split_newline cs
      else (case split_newline cs of
              [] \<Rightarrow> [[c]]
            | piece # pieces \<Rightarrow> (c # piece) # pieces))"

text \<open>Index 1 of a list; \<open>IndexError\<close> when the list has fewer than two elements.\<close>

fun index_1 :: "'a list \<Rightarrow> error + 'a" where
  "index_1 (x # y # ys) = Inr y"
| "index_1 ys = Inl IndexError"

text \<open>
  \<open>fetch_metar\<close>: the \<open>except\<close> clause catches \<open>ClientResponseError\<close> only; any
  other exception raised in the \<open>try\<close> block leaves the function.
\<close>

definition fetch_metar :: "session \<Rightarrow> string \<Rightarrow> error + string option" where
  "fetch_metar session code =
     (case and_then (session (METAR_ENDPOINT (upper code))) (\<lambda>resp.
           and_then (raise_for_status resp) (\<lambda>resp.
           index_1 (split_newline (text_body resp)))) of
        Inl e \<Rightarrow> (if e = ClientResponseError then Inr None else Inl e)
      | Inr line \<Rightarrow> Inr (Some line))"

text \<open>
  \<open>post_metar\<close> sends the report to the \<open>/meteo/create\<close> endpoint of the API, which
  is taken to answer every request: status 201 after \<open>create_report\<close> has returned,
  status 500 when it raised; \<open>raise_for_status\<close> then raises
  \<open>ClientResponseError\<close>, which is caught. The report travels unchanged.
\<close>

definition post_metar :: "decoder \<Rightarrow> string \<Rightarrow> database \<Rightarrow> (error + unit) \<times> database" where
  "post_metar metar metar_data db =
     (case create_report metar metar_data db of
        (Inl e, db') \<Rightarrow> (Inr (), db')
      | (Inr created, db') \<Rightarrow> (Inr (), db'))"

record airport =
  icao_code_airport :: "string option"
  name :: string

definition process_airport :: "session \<Rightarrow> decoder \<Rightarrow> airport \<Rightarrow> database \<Rightarrow> (error + unit) \<times> database" where
  "process_airport session metar a db =
     (case icao_code_airport a of
        None \<Rightarrow> (Inr (), db)
      | Some code \<Rightarrow>
          if code = [] then (Inr (), db)
          else (case fetch_metar session code of
                  Inl e \<Rightarrow> (Inl e, db)
                | Inr None \<Rightarrow> (Inr (), db)
                | Inr (Some metar_data) \<Rightarrow>
                    if metar_data = [] then (Inr (), db)
                    else post_metar metar metar_data db))"

text \<open>
  \<open>main\<close> builds one task for each airport that \<open>fetch_airports\<close> returned (the
  list \<open>airports\<close>). \<open>asyncio.gather(*tasks)\<close> is called without
  \<open>return_exceptions\<close>: the first exception of a task is raised in \<open>main\<close>, which
  ends the run. The tasks are taken in list order;
  which of the other tasks have stored their report when the run ends this way
  depends on the schedule.
\<close>

fun gather :: "(database \<Rightarrow> (error + unit) \<times> database) list \<Rightarrow> database \<Rightarrow> (error + unit) \<times> database" where
  "gather [] db = (Inr (), db)"
| "gather (task # tasks) db =
     (case task db of
        (Inl e, db') \<Rightarrow> (Inl e, db')
      | (Inr u, db') \<Rightarrow> gather tasks db')"

definition main :: "session \<Rightarrow> decoder \<Rightarrow> airport list \<Rightarrow> database \<Rightarrow> (error + unit) \<times> database" where
  "main session metar airports db =
     gather (map (process_airport session metar) airports) db"

section \<open>Auxiliary notions and example data\<close>

text \<open>
  The keys handed out so far lie below the sequence, and the sequence has not left
  the range of the column: the databases reached from the empty one while keys
  remain.
\<close>

definition ids_below_seq :: "database \<Rightarrow> bool" where
  "ids_below_seq db =
     (int32 (metars_id_seq db)
      \<and> list_all (\<lambda>row. id_col row < metars_id_seq db) (metars db))"



text \<open>Ascending order of \<open>date_time\<close>, an absent value after every present one.\<close>

fun date_time_le :: "datetime option \<Rightarrow> datetime option \<Rightarrow> bool" where
  "date_time_le (Some a) (Some b) = (a \<le> b)"
| "date_time_le None (Some b) = False"
| "date_time_le a None = True"

definition report_at :: "string \<Rightarrow> datetime \<Rightarrow> real option \<Rightarrow> MetarReportIn" where
  "report_at code t v =
     \<lparr>icao_code = Some code, date_time = Some t, wind_speed = Some 5,
      wind_direction = Some 270, wind_var_from = None, wind_var_to = None, wind_gust = None,
      rvr = Some 9999, rvr_direction = None, dew_point = Some 3, sky = Some [],
      temp = v, qnh = Some 1013\<rparr>"

definition report_without_sky :: MetarReportIn where
  "report_without_sky = (report_at ''EPKT'' 50 (Some 3))\<lparr>sky := None\<rparr>"

definition stored_once :: database where
  "stored_once = snd (add_report (report_at ''EPKT'' 100 (Some 7)) empty_database)"

definition stored_twice :: database where
  "stored_twice = snd (add_report (report_at ''EPKT'' 50 (Some 3)) stored_once)"

definition stored_without_temp :: database where
  "stored_without_temp = snd (add_report (report_at ''EPKT'' 50 None) stored_once)"

definition stored_without_sky :: database where
  "stored_without_sky = snd (add_report report_without_sky stored_once)"

text \<open>A decoder, answers of the report source and sessions for the examples.\<close>

definition example_obs :: "string \<Rightarrow> Metar_obs" where
  "example_obs code =
     \<lparr>station_id = Some code, time = Some 100, wind_speed_obs = Some 5, wind_dir = Some 270,
      wind_dir_from = None, wind_dir_to = None, wind_gust_obs = None, vis = Some 9999,
      vis_dir = None, dewpt = Some 3,
      sky_obs = [(''BKN'', Some 3000, None), (''NSC'', None, None)],
      temp_obs = Some 7, press = Some 1013\<rparr>"

definition example_decoder :: decoder where
  "example_decoder report =
     (if length report < 4 then Inl ParserError else Inr (example_obs (take 4 report)))"

definition ok_response :: "string \<Rightarrow> error + response" where
  "ok_response code =
     Inr \<lparr>status = 200,
          text_body = ''2024/01/01 12:00'' @ [CHR 0x0A] @ code
            @ '' 011200Z 27005KT 9999 07/03 Q1013'' @ [CHR 0x0A]\<rparr>"

definition not_found :: "error + response" where
  "not_found = Inr \<lparr>status = 404, text_body = ''Not Found''\<rparr>"

definition session_of :: "(string \<times> (error + response)) list \<Rightarrow> session" where
  "session_of answers url =
     (case map_of (map (\<lambda>(code, answer). (METAR_ENDPOINT code, answer)) answers) url of
        None \<Rightarrow> not_found
      | Some answer \<Rightarrow> answer)"

definition five_airports :: "airport list" where
  "five_airports = map (\<lambda>code. \<lparr>icao_code_airport = Some code, name = code\<rparr>)
     [''epkt'', ''epwa'', ''epkk'', ''epgd'', ''eppo'']"

definition two_not_found :: session where
  "two_not_found = session_of
     [(''EPKT'', ok_response ''EPKT''), (''EPWA'', not_found),
      (''EPKK'', ok_response ''EPKK''), (''EPGD'', not_found),
      (''EPPO'', ok_response ''EPPO'')]"

definition two_unreachable :: session where
  "two_unreachable = session_of
     [(''EPKT'', ok_response ''EPKT''), (''EPWA'', Inl ClientConnectionError),
      (''EPKK'', ok_response ''EPKK''), (''EPGD'', Inl ClientConnectionError),
      (''EPPO'', ok_response ''EPPO'')]"

definition two_without_report :: session where
  "two_without_report = session_of
     [(''EPKT'', ok_response ''EPKT''), (''EPWA'', Inr \<lparr>status = 200, text_body = []\<rparr>),
      (''EPKK'', ok_response ''EPKK''), (''EPGD'', Inr \<lparr>status = 200, text_body = []\<rparr>),
      (''EPPO'', ok_response ''EPPO'')]"

section \<open>The report store\<close>

lemmas store_defs = add_report_def execute_insert_def empty_database_def get_by_id_def
  fetch_one_by_id_def map_report_def report_dict_def insert_values_def pickle_dumps_def
  get_by_airport_def fetch_all_by_airport_def query_conditions_def date_time_key_def
  remove_report_def execute_delete_def int32_def and_then_def

lemmas example_defs = report_at_def report_without_sky_def stored_once_def stored_twice_def
  stored_without_temp_def stored_without_sky_def

subsection \<open>Insert and read back\<close>

lemma find_append_new:
  "list_all (\<lambda>row. id_col row < i) rows \<Longrightarrow> id_col new = i \<Longrightarrow>
   find (\<lambda>row. id_col row = i) (rows @ [new]) = Some new"
  by (induction rows) auto

lemma map_report_insert_values:
  "map_report (Some (insert_values i r)) =
     (case sky r of
        None \<Rightarrow> Inl TypeError
      | Some layers \<Rightarrow> Inr (Some (MetarReportIn.extend r \<lparr>report_id = i\<rparr>)))"
  by (cases r) (simp add: map_report_def report_dict_def insert_values_def pickle_dumps_def
      MetarReportIn.extend_def split: option.splits)

lemma execute_insert_ids_below_seq:
  assumes "ids_below_seq db"
  shows "execute_insert r db =
     Inr (metars_id_seq db,
          \<lparr>metars = metars db @ [insert_values (metars_id_seq db) r],
           metars_id_seq = metars_id_seq db + 1\<rparr>)"
  using assms by (simp add: execute_insert_def ids_below_seq_def Let_def)

lemma get_by_id_after_insert:
  assumes "ids_below_seq db"
  shows "get_by_id (metars_id_seq db)
           \<lparr>metars = metars db @ [insert_values (metars_id_seq db) r],
            metars_id_seq = metars_id_seq db + 1\<rparr> =
           map_report (Some (insert_values (metars_id_seq db) r))"
proof -
  have "id_col (insert_values (metars_id_seq db) r) = metars_id_seq db"
    by (simp add: insert_values_def)
  with assms show ?thesis
    by (simp add: get_by_id_def fetch_one_by_id_def and_then_def ids_below_seq_def
        find_append_new)
qed

lemma ids_below_seq_empty: "ids_below_seq empty_database"
  by (simp add: ids_below_seq_def empty_database_def int32_def)

lemma ids_below_seq_add_report:
  assumes "ids_below_seq db" and "metars_id_seq db < 2147483647"
  shows "ids_below_seq (snd (add_report r db))"
proof -
  have "list_all (\<lambda>row. id_col row < i + 1) rows" if "list_all (\<lambda>row. id_col row < i) rows"
    for i :: int and rows :: "metar_row list"
    using that by (induction rows) auto
  with assms show ?thesis
    by (simp add: add_report_def execute_insert_ids_below_seq [OF assms(1)])
      (simp add: ids_below_seq_def insert_values_def int32_def)
qed

lemma truncate_extend: "MetarReportIn.truncate (MetarReportIn.extend r m) = r"
  by (cases r) (simp add: MetarReportIn.truncate_def MetarReportIn.extend_def)

lemma report_id_extend: "report_id (MetarReportIn.extend r \<lparr>report_id = i\<rparr>) = i"
  by (cases r) (simp add: MetarReportIn.extend_def)

text \<open>
  With a sky list the read-back returns the report under its new key, equal to the
  input in every other field.
\<close>

lemma add_report_with_sky:
  assumes "ids_below_seq db" and "sky r = Some layers"
  shows "\<exists>stored. fst (add_report r db) = Inr (Some stored)
           \<and> report_id stored = metars_id_seq db \<and> MetarReportIn.truncate stored = r"
  using assms(2)
  by (simp add: add_report_def execute_insert_ids_below_seq [OF assms(1)]
      get_by_id_after_insert [OF assms(1)] map_report_insert_values truncate_extend
      report_id_extend)

text \<open>Without one, the row is inserted and the read-back raises.\<close>

lemma add_report_sky_None:
  assumes "ids_below_seq db" and "sky r = None"
  shows "fst (add_report r db) = Inl TypeError"
  using assms(2)
  by (simp add: add_report_def execute_insert_ids_below_seq [OF assms(1)]
      get_by_id_after_insert [OF assms(1)] map_report_insert_values)

text \<open>
  C5. Round trip: inserting an observation and fetching it by the assigned id gives
  the observation back, equal in every field except the id. The model allows
  \<open>sky=None\<close> and the column is nullable, but \<open>_map_report\<close> unpickles the column
  without a test: for the observation \<open>report_without_sky\<close> the row is inserted (it is
  the second row of the table afterwards) and \<open>add_report\<close> raises \<open>TypeError\<close>
  instead of returning the stored observation.
\<close>

theorem add_report_without_sky_raises:
  "fst (add_report report_without_sky stored_once) = Inl TypeError
   \<and> map id_col (metars (snd (add_report report_without_sky stored_once))) = [1, 2]
   \<and> get_by_id 2 (snd (add_report report_without_sky stored_once)) = Inl TypeError"
  by (simp add: example_defs store_defs)

subsection \<open>Query by station and time window\<close>

lemma date_time_key_le: "date_time_key a \<le> date_time_key b \<longleftrightarrow> date_time_le a b"
  by (cases a; cases b) (auto simp: date_time_key_def)

lemma map_reports_pickled:
  "list_all (\<lambda>row. sky_col row \<noteq> None) rows \<Longrightarrow>
   \<exists>rs. map_reports rows = Inr rs \<and>
        list_all2 (\<lambda>row r. \<exists>layers. sky_col row = Some (Pickled layers)
                     \<and> r = report_dict row layers) rows rs"
proof (induction rows)
  case Nil
  then show ?case by simp
next
  case (Cons row rows)
  then obtain rs where rs: "map_reports rows = Inr rs"
    "list_all2 (\<lambda>row r. \<exists>layers. sky_col row = Some (Pickled layers)
                  \<and> r = report_dict row layers) rows rs"
    by auto
  from Cons.prems obtain layers where "sky_col row = Some (Pickled layers)"
    by (cases "sky_col row") (auto intro: pickled.exhaust)
  with rs show ?case
    by (simp add: map_report_def)
qed

text \<open>
  When every row that matches carries a pickled sky, the query returns the reports
  of exactly the matching rows, in ascending order of \<open>date_time\<close>.
\<close>

lemma get_by_airport_pickled:
  assumes "list_all (\<lambda>row. sky_col row \<noteq> None)
             (filter (query_conditions code start_date end_date) (metars db))"
  shows "\<exists>rs. get_by_airport code start_date end_date db = Inr rs
          \<and> sorted_wrt date_time_le (map date_time rs)
          \<and> set rs = {report_dict row layers | row layers.
                row \<in> set (metars db) \<and> query_conditions code start_date end_date row
                \<and> sky_col row = Some (Pickled layers)}"
proof -
  let ?rows = "fetch_all_by_airport code start_date end_date db"
  have "list_all (\<lambda>row. sky_col row \<noteq> None) ?rows"
    using assms by (simp add: fetch_all_by_airport_def list_all_iff)
  from map_reports_pickled [OF this] obtain rs where rs: "map_reports ?rows = Inr rs"
    "list_all2 (\<lambda>row r. \<exists>layers. sky_col row = Some (Pickled layers)
                  \<and> r = report_dict row layers) ?rows rs"
    by blast
  have keys: "map date_time rs = map date_time_col ?rows"
    using rs(2) by (induction rule: list_all2_induct) (auto simp: report_dict_def)
  have "sorted (map (\<lambda>row. date_time_key (date_time_col row)) ?rows)"
    by (simp add: fetch_all_by_airport_def)
  then have "sorted_wrt date_time_le (map date_time_col ?rows)"
    by (simp add: sorted_wrt_map date_time_key_le)
  with keys have ascending: "sorted_wrt date_time_le (map date_time rs)"
    by simp
  have "set rs = {report_dict row layers | row layers.
           row \<in> set ?rows \<and> sky_col row = Some (Pickled layers)}"
    using rs(2) by (induction rule: list_all2_induct) auto
  then have "set rs = {report_dict row layers | row layers.
                row \<in> set (metars db) \<and> query_conditions code start_date end_date row
                \<and> sky_col row = Some (Pickled layers)}"
    by (auto simp: fetch_all_by_airport_def)
  with rs(1) ascending show ?thesis
    by (simp add: get_by_airport_def)
qed

text \<open>
  C4. The query returns exactly the stored observations of the station whose
  \<open>observed_at\<close> lies within the bounds, in ascending order. The code filters and
  orders as stated (lemma \<open>get_by_airport_pickled\<close>), but it raises as soon as one
  matching row has a NULL \<open>sky\<close>: in \<open>stored_without_sky\<close> the station has two stored
  observations, and the unbounded query raises \<open>TypeError\<close> instead of returning
  them.
\<close>

theorem get_by_airport_without_sky_raises:
  "map icao_code_col (metars stored_without_sky) = [Some ''EPKT'', Some ''EPKT'']
   \<and> get_by_airport ''EPKT'' None None stored_without_sky = Inl TypeError"
  by (simp add: example_defs store_defs)

subsection \<open>Delete\<close>

text \<open>
  C8 (as amended). For every id in the 32-bit range of the key column,
  \<open>remove_report\<close> returns \<open>None\<close>, never a boolean; afterwards no row with that id
  is stored, and a lookup of any other id answers exactly as before. For an id
  outside that range the call raises \<open>DataError\<close> and the store is unchanged.
\<close>

theorem remove_report_returns_none:
  "(int32 rid \<longrightarrow>
      fst (remove_report rid db) = Inr PyNone
      \<and> fetch_one_by_id rid (snd (remove_report rid db)) = Inr None
      \<and> (\<forall>other. other \<noteq> rid \<longrightarrow>
            fetch_one_by_id other (snd (remove_report rid db)) = fetch_one_by_id other db))
   \<and> (\<not> int32 rid \<longrightarrow> remove_report rid db = (Inl DataError, db))"
proof -
  have gone: "find (\<lambda>row. id_col row = rid) (filter (\<lambda>row. id_col row \<noteq> rid) rows) = None"
    for rows :: "metar_row list"
    by (induction rows) auto
  have kept: "other \<noteq> rid \<Longrightarrow>
      find (\<lambda>row. id_col row = other) (filter (\<lambda>row. id_col row \<noteq> rid) rows)
        = find (\<lambda>row. id_col row = other) rows" for other and rows :: "metar_row list"
    by (induction rows) auto
  show ?thesis
    by (simp add: remove_report_def execute_delete_def fetch_one_by_id_def gone kept)
qed

theorem remove_report_returns_none_witness:
  "int32 2 \<and> (1::int) \<noteq> 2 \<and> fst (remove_report 2 stored_twice) = Inr PyNone
   \<and> fetch_one_by_id 2 (snd (remove_report 2 stored_twice)) = Inr None
   \<and> fetch_one_by_id 1 (snd (remove_report 2 stored_twice)) = fetch_one_by_id 1 stored_twice
   \<and> \<not> int32 2147483648
   \<and> remove_report 2147483648 stored_twice = (Inl DataError, stored_twice)"
  using remove_report_returns_none [of 2 stored_twice]
    remove_report_returns_none [of 2147483648 stored_twice]
  by (simp add: int32_def)

text \<open>
  C8 as stated fails: the row with id 1 exists and is removed, and the value
  returned is not \<open>True\<close>.
\<close>

theorem remove_report_no_boolean:
  "fetch_one_by_id 1 stored_once \<noteq> Inr None
   \<and> fetch_one_by_id 1 (snd (remove_report 1 stored_once)) = Inr None
   \<and> fst (remove_report 1 stored_once) \<noteq> Inr (PyBool True)"
  by (simp add: example_defs store_defs)

section \<open>Statistics\<close>

lemma those_map_Some: "those (map Some vs) = Some vs"
  by (induction vs) auto

lemma np_array_present: "np_array (map Some vs) = FloatArray vs"
  by (simp add: np_array_def those_map_Some)

lemma fold_min_Min: "fold min vs (v::real) = Min (insert v (set vs))"
  using Min.set_eq_fold [of v vs] by simp

lemma fold_max_Max: "fold max vs (v::real) = Max (insert v (set vs))"
  using Max.set_eq_fold [of v vs] by simp

lemma avg_min_max_floats:
  "vs \<noteq> [] \<Longrightarrow> avg_min_max (FloatArray vs) =
     Inr (Some (Float (sum_list vs / real (length vs))),
          Some (Float (Min (set vs))), Some (Float (Max (set vs))))"
  by (cases vs) (simp_all add: avg_min_max_def and_then_def fold_min_Min fold_max_Max)

lemma avg_min_max_present:
  assumes "map f reports = map Some vs" and "reports \<noteq> []"
  shows "avg_min_max (np_array (map f reports)) =
     Inr (Some (Float (sum_list vs / real (length vs))),
          Some (Float (Min (set vs))), Some (Float (Max (set vs))))"
proof -
  from assms have "vs \<noteq> []" by auto
  then show ?thesis
    unfolding assms(1) np_array_present by (rule avg_min_max_floats)
qed

lemma validate_triple_present:
  "validate_triple (Some a, Some lo, Some hi) = Inr (a, lo, hi)"
  by (simp add: validate_triple_def validate_float_def and_then_def)

lemma those_None_iff: "those xs = None \<longleftrightarrow> None \<in> set xs"
  by (induction xs) (auto split: option.splits)

lemma avg_min_max_absent:
  "None \<in> set xs \<Longrightarrow> avg_min_max (np_array xs) = Inl TypeError"
  by (simp add: avg_min_max_def and_then_def np_array_def those_None_iff [THEN iffD2])

lemma avg_min_max_no_absent:
  assumes "None \<notin> set xs" and "xs \<noteq> []"
  shows "\<exists>t. avg_min_max (np_array xs) = Inr t"
proof -
  from assms(1) obtain vs where vs: "those xs = Some vs"
    by (cases "those xs") (auto simp: those_None_iff)
  with assms(2) have "vs \<noteq> []"
    by (cases xs) (auto split: option.splits)
  with vs show ?thesis
    by (simp add: np_array_def avg_min_max_floats)
qed

lemma avg_min_max_nonempty:
  "xs \<noteq> [] \<Longrightarrow> (None \<in> set xs \<and> avg_min_max (np_array xs) = Inl TypeError)
     \<or> (None \<notin> set xs \<and> (\<exists>t. avg_min_max (np_array xs) = Inr t))"
  using avg_min_max_absent avg_min_max_no_absent by blast

text \<open>
  An observation of the filtered set that lacks one of the five metrics is not left
  out of that metric's statistics: the whole call raises \<open>TypeError\<close>, whatever
  the bounds.
\<close>

lemma get_stats_absent_raises:
  assumes "get_by_airport code start_date end_date db = Inr reports"
    and "r \<in> set reports"
    and "temp r = None \<or> wind_speed r = None \<or> rvr r = None \<or> dew_point r = None
         \<or> qnh r = None"
  shows "get_stats code start_date end_date db = Inl TypeError"
proof -
  from assms(2) have ne: "\<And>f. map f reports \<noteq> []" by auto
  from assms(2,3) have some:
    "None \<in> set (map temp reports) \<or> None \<in> set (map wind_speed reports)
      \<or> None \<in> set (map rvr reports) \<or> None \<in> set (map dew_point reports)
      \<or> None \<in> set (map qnh reports)"
    by (metis image_eqI list.set_map)
  show ?thesis
    using some avg_min_max_nonempty [OF ne [of temp]]
      avg_min_max_nonempty [OF ne [of wind_speed]] avg_min_max_nonempty [OF ne [of rvr]]
      avg_min_max_nonempty [OF ne [of dew_point]] avg_min_max_nonempty [OF ne [of qnh]]
    unfolding get_stats_def assms(1)
    by (elim disjE conjE exE) (simp_all add: and_then_def)
qed

text \<open>
  C1 (as amended). For every station and window with both bounds given for which
  the store's query \<open>get_by_airport\<close> returns (it does not raise) a non-empty
  sequence of observations that carry a value for each tracked metric in every
  observation (\<open>ts\<close>, \<open>ws\<close>, \<open>vs\<close>, \<open>ds\<close>, \<open>qs\<close> are those values),
  \<open>get_stats\<close> returns, for each metric, the arithmetic mean, the minimum and the
  maximum of the values. Nothing is filtered: the statistics range over all
  observations returned.
\<close>

theorem get_stats_all_present:
  assumes "get_by_airport code (Some s) (Some e) db = Inr reports" and "reports \<noteq> []"
    and "map temp reports = map Some ts"
    and "map wind_speed reports = map Some ws"
    and "map rvr reports = map Some vs"
    and "map dew_point reports = map Some ds"
    and "map qnh reports = map Some qs"
  shows "get_stats code (Some s) (Some e) db =
     Inr \<lparr>start_time = s, end_time = e, icao_code_stats = code,
          avg_temperature = Float (sum_list ts / real (length ts)),
          min_temperature = Float (Min (set ts)),
          max_temperature = Float (Max (set ts)),
          avg_wind_speed = Float (sum_list ws / real (length ws)),
          min_wind_speed = Float (Min (set ws)),
          max_wind_speed = Float (Max (set ws)),
          avg_rvr = Float (sum_list vs / real (length vs)),
          min_rvr = Float (Min (set vs)),
          max_rvr = Float (Max (set vs)),
          avg_dew_point = Float (sum_list ds / real (length ds)),
          min_dew_point = Float (Min (set ds)),
          max_dew_point = Float (Max (set ds)),
          avg_qhn = Float (sum_list qs / real (length qs)),
          min_qhn = Float (Min (set qs)),
          max_qhn = Float (Max (set qs))\<rparr>"
proof -
  note stats = avg_min_max_present [OF assms(3) assms(2)]
    avg_min_max_present [OF assms(4) assms(2)] avg_min_max_present [OF assms(5) assms(2)]
    avg_min_max_present [OF assms(6) assms(2)] avg_min_max_present [OF assms(7) assms(2)]
  show ?thesis
    by (simp add: get_stats_def assms(1) and_then_def stats MeteoStatsDTO_init_def
        validate_datetime_def validate_triple_present)
qed

lemma get_by_airport_stored_twice:
  "get_by_airport ''EPKT'' (Some 0) (Some 200) stored_twice =
     Inr [MetarReportIn.extend (report_at ''EPKT'' 50 (Some 3)) \<lparr>report_id = 2\<rparr>,
          MetarReportIn.extend (report_at ''EPKT'' 100 (Some 7)) \<lparr>report_id = 1\<rparr>]"
  by (simp add: example_defs store_defs MetarReportIn.extend_def)

theorem get_stats_all_present_witness:
  "map_sum id (map temp) (get_by_airport ''EPKT'' (Some 0) (Some 200) stored_twice)
     = Inr [Some 3, Some 7]
   \<and> map_sum id (\<lambda>dto. (avg_temperature dto, min_temperature dto, max_temperature dto))
       (get_stats ''EPKT'' (Some 0) (Some 200) stored_twice) = Inr (Float 5, Float 3, Float 7)"
  using get_stats_all_present [OF get_by_airport_stored_twice,
      of "[3, 7]" "[5, 5]" "[9999, 9999]" "[3, 3]" "[1013, 1013]"]
  by (simp add: get_by_airport_stored_twice report_at_def MetarReportIn.extend_def)

text \<open>
  C1 as stated fails: the window holds two observations, one without a temperature;
  the call raises \<open>TypeError\<close> instead of computing the temperature statistics
  over the one present value.
\<close>

theorem get_stats_absent_value:
  "map_sum id (map temp) (get_by_airport ''EPKT'' (Some 0) (Some 200) stored_without_temp)
     = Inr [None, Some 7]
   \<and> get_stats ''EPKT'' (Some 0) (Some 200) stored_without_temp = Inl TypeError"
  by (simp add: example_defs store_defs get_stats_def and_then_def np_array_def
      avg_min_max_def)

text \<open>
  C2 (as amended). For every station and window whose filtered observation set is
  empty, \<open>get_stats\<close> fails and returns no summary; the exception is the
  \<open>ValueError\<close> of the minimum over an empty array.
\<close>

theorem get_stats_empty:
  assumes "get_by_airport code start_date end_date db = Inr []"
  shows "get_stats code start_date end_date db = Inl ValueError"
  unfolding get_stats_def assms
  by (simp add: and_then_def np_array_def avg_min_max_def)

theorem get_stats_empty_witness:
  "get_by_airport ''EPKT'' (Some 0) (Some 50) stored_once = Inr []
   \<and> get_stats ''EPKT'' (Some 0) (Some 50) stored_once = Inl ValueError"
proof -
  have h: "get_by_airport ''EPKT'' (Some 0) (Some 50) stored_once = Inr []"
    by (simp add: example_defs store_defs)
  show ?thesis using h get_stats_empty [OF h] by simp
qed

text \<open>C2 as stated fails: on an empty window the exception is not \<open>NoDataError\<close>.\<close>

theorem get_stats_empty_not_NoDataError:
  "get_by_airport ''EPKT'' None None empty_database = Inr []
   \<and> get_stats ''EPKT'' None None empty_database = Inl ValueError
   \<and> get_stats ''EPKT'' None None empty_database \<noteq> Inl NoDataError"
  by (simp add: store_defs get_stats_def and_then_def np_array_def avg_min_max_def)

text \<open>
  C6. With both bounds absent and a matching observation, \<open>get_stats\<close> is to return
  the summary over all time. The service declares the bounds optional and the
  router passes \<open>None\<close> for a bound that is not given, but \<open>MeteoStatsDTO\<close> declares
  \<open>start_time\<close> and \<open>end_time\<close> as \<open>datetime\<close>: with one stored observation of the
  station, all of whose metrics are present, the call raises \<open>ValidationError\<close>.
\<close>

theorem get_stats_without_bounds_raises:
  "map_sum id (map temp) (get_by_airport ''EPKT'' None None stored_once) = Inr [Some 7]
   \<and> get_stats ''EPKT'' None None stored_once = Inl ValidationError"
  by (simp add: example_defs store_defs get_stats_def and_then_def np_array_def
      avg_min_max_def MeteoStatsDTO_init_def validate_datetime_def)

section \<open>The collector\<close>

lemma METAR_ENDPOINT_inject: "METAR_ENDPOINT a = METAR_ENDPOINT b \<longleftrightarrow> a = b"
  by (simp add: METAR_ENDPOINT_def)

lemmas collector_defs = main_def process_airport_def fetch_metar_def post_metar_def
  create_report_def add_text_report_def from_text_report_def raise_for_status_def
  and_then_def upper_def upper_char_def

lemmas collector_examples = five_airports_def session_of_def ok_response_def not_found_def
  example_decoder_def example_obs_def METAR_ENDPOINT_inject

subsection \<open>The line taken from the response\<close>

lemma split_newline_nonempty: "split_newline s \<noteq> []"
  by (induction s) (auto split: list.splits)

lemma split_newline_first:
  "CHR 0x0A \<notin> set line \<Longrightarrow>
   split_newline (line @ CHR 0x0A # rest) = line # split_newline rest"
  by (induction line) (auto split: list.splits)

lemma hd_split_newline:
  "hd (split_newline s) = takeWhile (\<lambda>c. c \<noteq> CHR 0x0A) s"
  by (induction s) (auto split: list.splits simp: split_newline_nonempty)

lemma index_1_split_newline:
  assumes "CHR 0x0A \<notin> set first"
  shows "index_1 (split_newline (first @ CHR 0x0A # rest))
           = Inr (takeWhile (\<lambda>c. c \<noteq> CHR 0x0A) rest)"
proof -
  obtain piece pieces where p: "split_newline rest = piece # pieces"
    using split_newline_nonempty [of rest] by (cases "split_newline rest") auto
  then have "piece = takeWhile (\<lambda>c. c \<noteq> CHR 0x0A) rest"
    using hd_split_newline [of rest] by simp
  with p show ?thesis
    by (simp add: split_newline_first [OF assms])
qed




text \<open>A text of a single line has no report line, and \<open>fetch_metar\<close> raises.\<close>

lemma fetch_metar_single_line:
  assumes "session (METAR_ENDPOINT (upper code)) = Inr resp"
    and "status resp < 400"
    and "CHR 0x0A \<notin> set (text_body resp)"
  shows "fetch_metar session code = Inl IndexError"
proof -
  have "split_newline line = [line]" if "CHR 0x0A \<notin> set line" for line
    using that by (induction line) (auto split: list.splits)
  with assms show ?thesis
    by (simp add: fetch_metar_def and_then_def raise_for_status_def)
qed

subsection \<open>One run over the stations\<close>

lemma fetch_metar_completes:
  assumes "session (METAR_ENDPOINT (upper code)) = Inr resp"
    and "status resp < 400 \<Longrightarrow> CHR 0x0A \<in> set (text_body resp)"
  shows "\<exists>line. fetch_metar session code = Inr line"
proof (cases "status resp < 400")
  case True
  with assms(2) obtain first rest where "text_body resp = first @ CHR 0x0A # rest"
    "CHR 0x0A \<notin> set first"
    by (auto dest: split_list_first)
  with True show ?thesis
    by (simp add: fetch_metar_def assms(1) and_then_def raise_for_status_def
        index_1_split_newline)
next
  case False
  then show ?thesis
    by (simp add: fetch_metar_def assms(1) and_then_def raise_for_status_def)
qed

lemma post_metar_completes: "fst (post_metar metar metar_data db) = Inr ()"
  by (simp add: post_metar_def split: prod.splits sum.splits)

lemma process_airport_completes:
  assumes "\<And>url. \<exists>resp. session url = Inr resp
             \<and> (status resp < 400 \<longrightarrow> CHR 0x0A \<in> set (text_body resp))"
  shows "fst (process_airport session metar a db) = Inr ()"
proof (cases "icao_code_airport a")
  case None
  then show ?thesis by (simp add: process_airport_def)
next
  case (Some code)
  from assms [of "METAR_ENDPOINT (upper code)"]
  obtain line where "fetch_metar session code = Inr line"
    using fetch_metar_completes by blast
  with Some show ?thesis
    by (simp add: process_airport_def post_metar_completes split: option.splits)
qed

lemma gather_completes:
  "(\<And>task db. task \<in> set tasks \<Longrightarrow> fst (task db) = Inr ())
   \<Longrightarrow> fst (gather tasks db) = Inr ()"
proof (induction tasks arbitrary: db)
  case Nil
  then show ?case by simp
next
  case (Cons task tasks)
  have "fst (task db) = Inr ()" using Cons.prems by simp
  then obtain db' where step: "task db = (Inr (), db')" by (cases "task db") auto
  have "fst (gather tasks db') = Inr ()"
    by (rule Cons.IH) (simp add: Cons.prems)
  with step show ?case by simp
qed

text \<open>
  When every request is answered, and every answer without error status has a
  second line, the run completes: an error status or a report that the API rejects
  skips the station and nothing more.
\<close>

lemma main_completes:
  assumes "\<And>url. \<exists>resp. session url = Inr resp
             \<and> (status resp < 400 \<longrightarrow> CHR 0x0A \<in> set (text_body resp))"
  shows "fst (main session metar airports db) = Inr ()"
  unfolding main_def
  by (rule gather_completes) (auto simp: process_airport_completes [OF assms])

text \<open>Five stations, two answered with status 404: three observations are stored.\<close>

lemma main_two_not_found:
  "fst (main two_not_found example_decoder five_airports empty_database) = Inr ()
   \<and> map icao_code_col
       (metars (snd (main two_not_found example_decoder five_airports empty_database)))
     = [Some ''EPKT'', Some ''EPKK'', Some ''EPPO'']"
  by (simp add: two_not_found_def collector_defs collector_examples store_defs)

text \<open>
  C3. No station's failure aborts the batch: with five stations of which the fetch
  fails for two, the run completes without raising. \<open>fetch_metar\<close> catches
  \<open>ClientResponseError\<close> only. When the two fetches fail in the transport (the
  source is unreachable), or are answered with a text of a single line, the
  exception leaves \<open>fetch_metar\<close>, \<open>process_airport\<close> and \<open>gather\<close>: the run raises.
\<close>

theorem main_fetch_failure_raises:
  "fst (main two_unreachable example_decoder five_airports empty_database)
     = Inl ClientConnectionError
   \<and> fst (main two_without_report example_decoder five_airports empty_database)
     = Inl IndexError"
  by (simp add: two_unreachable_def two_without_report_def collector_defs
      collector_examples store_defs)

section \<open>The text-report path\<close>

text \<open>
  Once \<open>Metar.Metar\<close> has returned, each field of the report is the attribute of the
  same name of the decoded object, taken on its own. Which tokens make the decoder
  raise, and which leave an attribute \<open>None\<close>, is decided inside \<open>Metar.Metar\<close>.
\<close>

lemma from_text_report_fieldwise:
  assumes "metar report = Inr obs"
  shows "\<exists>r. from_text_report metar report = Inr r
    \<and> icao_code r = station_id obs \<and> date_time r = time obs
    \<and> wind_speed r = wind_speed_obs obs \<and> wind_direction r = wind_dir obs
    \<and> wind_var_from r = wind_dir_from obs \<and> wind_var_to r = wind_dir_to obs
    \<and> wind_gust r = wind_gust_obs obs \<and> rvr r = vis obs \<and> rvr_direction r = vis_dir obs
    \<and> dew_point r = dewpt obs \<and> temp r = temp_obs obs \<and> qnh r = press obs"
  by (simp add: from_text_report_def assms)

text \<open>
  C10. Every observation produced by \<open>from_text_report\<close> has a sky that is a list,
  never \<open>None\<close>; so \<open>_map_report\<close> applies to the row inserted for it under any key,
  and \<open>add_text_report\<close> returns the stored observation, equal to the parsed one in
  every field except the id.
\<close>

theorem from_text_report_sky_list:
  assumes "from_text_report metar text_report = Inr r"
  shows "(\<exists>layers. sky r = Some layers)
    \<and> (\<forall>i. \<exists>stored. map_report (Some (insert_values i r)) = Inr (Some stored))
    \<and> (\<forall>db. ids_below_seq db \<longrightarrow>
          (\<exists>stored. fst (add_text_report metar text_report db) = Inr (Some stored)
             \<and> MetarReportIn.truncate stored = r))"
proof -
  from assms obtain layers where layers: "sky r = Some layers"
    by (auto simp: from_text_report_def split: sum.splits)
  have "\<exists>stored. fst (add_text_report metar text_report db) = Inr (Some stored)
             \<and> MetarReportIn.truncate stored = r" if "ids_below_seq db" for db
    using layers
    by (simp add: add_text_report_def assms execute_insert_ids_below_seq [OF that]
        get_by_id_after_insert [OF that] map_report_insert_values truncate_extend)
  with layers show ?thesis
    by (simp add: map_report_insert_values)
qed

theorem from_text_report_sky_list_witness:
  "from_text_report example_decoder ''EPKT 011200Z'' \<noteq> Inl ParserError
   \<and> ids_below_seq empty_database
   \<and> map_sum id sky (from_text_report example_decoder ''EPKT 011200Z'')
       = Inr (Some [(''BKN'', Some 3000), (''NSC'', None)])
   \<and> map_sum id (map_option sky)
       (fst (add_text_report example_decoder ''EPKT 011200Z'' empty_database))
       = Inr (Some (Some [(''BKN'', Some 3000), (''NSC'', None)]))"
proof -
  obtain r where r: "from_text_report example_decoder ''EPKT 011200Z'' = Inr r"
    by (simp add: from_text_report_def example_decoder_def)
  from from_text_report_sky_list [OF r] ids_below_seq_empty
  obtain stored where
    "fst (add_text_report example_decoder ''EPKT 011200Z'' empty_database) = Inr (Some stored)"
    "MetarReportIn.truncate stored = r"
    by blast
  moreover have "sky r = Some [(''BKN'', Some 3000), (''NSC'', None)]"
    using r by (auto simp: from_text_report_def example_decoder_def example_obs_def)
  moreover have "sky (MetarReportIn.truncate stored) = sky stored"
    by (simp add: MetarReportIn.truncate_def)
  ultimately show ?thesis
    using r ids_below_seq_empty by simp
qed

end
